theory Spec2Isabelle
  imports Complex_Main
begin

section \<open>IntelliVest front end: the gateway and the three action handlers\<close>

text \<open>
  The component \<^verbatim>\<open>FinancialAssistant\<close> of \<^verbatim>\<open>src/IntellivestFrontEnd.jsx\<close> keeps
  eight \<^verbatim>\<open>useState\<close> cells and three asynchronous handlers (\<^verbatim>\<open>getSummary\<close>,
  \<^verbatim>\<open>askQuestion\<close>, \<^verbatim>\<open>handlePortfolioUpload\<close>) that all go through the helper
  \<^verbatim>\<open>fetchData\<close>. The embedding below passes the cells around as a record, returns
  every thrown value as the left injection of a sum, and logs the requests handed to
  \<^verbatim>\<open>fetch\<close> and the lines written by \<^verbatim>\<open>console.error\<close> in a second record.

  A handler is run from the click to its last write: what the platform answers (how the
  promise of \<^verbatim>\<open>fetch\<close> settles, which event the file reader fires) is a value
  of the platform record, and the writes a handler makes before it waits are its pending
  state. Runs of handlers follow one another; they are not interleaved.

  Strings are byte strings in the encoding of the source file (UTF-8); the handlers only
  test them for emptiness and concatenate them. Numbers of a parsed body are taken as
  reals; the handlers pass them on and never compute with them.
\<close>

subsection \<open>JavaScript values\<close>

text \<open>
  The values that \<^verbatim>\<open>JSON.parse\<close> can produce, and \<^verbatim>\<open>undefined\<close>, which a read of a
  missing property gives. An object is its list of properties; the first entry of a name
  is the one a read finds.
\<close>

datatype jsval =
    JUndefined
  | JNull
  | JBool bool
  | JNumber real
  | JString string
  | JArray "jsval list"
  | JObject "(string \<times> jsval) list"

text \<open>Truthiness, as \<^verbatim>\<open>if (body)\<close> and the render's \<^verbatim>\<open>summary && ...\<close> test it.\<close>

fun js_truthy :: "jsval \<Rightarrow> bool" where
  "js_truthy JUndefined = False"
| "js_truthy JNull = False"
| "js_truthy (JBool b) = b"
| "js_truthy (JNumber r) = (r \<noteq> 0)"
| "js_truthy (JString s) = (s \<noteq> [])"
| "js_truthy (JArray xs) = True"
| "js_truthy (JObject ps) = True"

text \<open>A thrown \<^verbatim>\<open>Error\<close> object; the handlers read nothing of it but \<^verbatim>\<open>message\<close>.\<close>

datatype js_error = Error (message: string)

text \<open>
  The message of the \<^verbatim>\<open>TypeError\<close> that a property read on \<^verbatim>\<open>null\<close> or
  \<^verbatim>\<open>undefined\<close> throws. The wording is the engine's (here V8's); no theorem below
  depends on it.
\<close>

definition nullish_read_message :: "string \<Rightarrow> string \<Rightarrow> string" where
  "nullish_read_message what name =
     ''Cannot read properties of '' @ what @ '' (reading '' @ [CHR 0x27] @ name @ [CHR 0x27] @ '')''"

text \<open>
  The property reads \<^verbatim>\<open>data.summary\<close>, \<^verbatim>\<open>data.answer\<close> and \<^verbatim>\<open>data.analysis\<close>:
  a read on \<^verbatim>\<open>null\<close> or \<^verbatim>\<open>undefined\<close> throws, a read on an object finds the
  property or gives \<^verbatim>\<open>undefined\<close>, and a read on any other value gives
  \<^verbatim>\<open>undefined\<close> (none of the three names is a property of a built-in prototype or an
  array index).
\<close>

fun read_prop :: "jsval \<Rightarrow> string \<Rightarrow> js_error + jsval" where
  "read_prop JUndefined name = Inl (Error (nullish_read_message ''undefined'' name))"
| "read_prop JNull name = Inl (Error (nullish_read_message ''null'' name))"
| "read_prop (JObject ps) name = Inr (case map_of ps name of None \<Rightarrow> JUndefined | Some v \<Rightarrow> v)"
| "read_prop v name = Inr JUndefined"

text \<open>\<^verbatim>\<open>typeof text === 'string'\<close>.\<close>

fun is_string :: "jsval \<Rightarrow> bool" where
  "is_string (JString t) = True"
| "is_string v = False"

text \<open>\<^verbatim>\<open>err.message || fallback\<close>: the fallback replaces an empty message.\<close>

definition message_or :: "js_error \<Rightarrow> string \<Rightarrow> string" where
  "message_or err fallback = (if message err = [] then fallback else message err)"

text \<open>The decimal numeral a template literal writes for a status code.\<close>

function string_of_nat :: "nat \<Rightarrow> string" where
  "string_of_nat n =
     (if n < 10 then [''0123456789'' ! n]
      else string_of_nat (n div 10) @ [''0123456789'' ! (n mod 10)])"
  by pat_completeness auto
termination
  by (relation "measure id") auto

declare string_of_nat.simps [simp del]

subsection \<open>The platform: fetch, responses, the file reader\<close>

text \<open>
  A request is the pair of arguments given to \<^verbatim>\<open>fetch\<close>: the address and the
  \<^verbatim>\<open>config\<close> object. \<^verbatim>\<open>req_body\<close> holds the value that \<^verbatim>\<open>JSON.stringify\<close>
  serialises into \<^verbatim>\<open>config.body\<close>, or \<open>None\<close> when \<^verbatim>\<open>config\<close> has no body.
\<close>

record request =
  req_url :: string
  req_method :: string
  req_headers :: "(string \<times> string) list"
  req_body :: "jsval option"

text \<open>
  A response is what the handlers read of it: \<^verbatim>\<open>status\<close>, and the outcome of
  \<^verbatim>\<open>response.json()\<close>, which is the parsed body or the thrown parse error.
  \<^verbatim>\<open>response.ok\<close> is the platform's test that the status lies in 200..299.
\<close>

record response =
  status :: nat
  json :: "js_error + jsval"

definition ok :: "response \<Rightarrow> bool" where
  "ok r = (200 \<le> status r \<and> status r \<le> 299)"

text \<open>The promise of \<^verbatim>\<open>fetch\<close> settles: rejected by the transport, or resolved.\<close>

datatype fetch_outcome = Rejected js_error | Resolved response

text \<open>
  \<^verbatim>\<open>reader.readAsText(file)\<close> ends in one of the two events the handler listens to:
  \<^verbatim>\<open>error\<close>, or \<^verbatim>\<open>load\<close> with the value of \<^verbatim>\<open>e.target?.result\<close>.
\<close>

datatype reader_event = OnError | OnLoad jsval

record 'f platform =
  fetch :: "request \<Rightarrow> fetch_outcome"
  readAsText :: "'f \<Rightarrow> reader_event"

text \<open>What the handlers do to the outside: requests issued and console lines, oldest first.\<close>

record world =
  requests :: "request list"
  console :: "js_error list"

subsection \<open>The gateway \<^verbatim>\<open>fetchData\<close> (lines 13--44)\<close>

definition API_BASE_URL :: string where
  "API_BASE_URL = ''/intellivest-back-end.py''"

text \<open>Lines 16--30 and the address of line 32: what \<^verbatim>\<open>fetch\<close> is called with.\<close>

definition fetchData_config :: "string \<Rightarrow> string \<Rightarrow> jsval \<Rightarrow> request" where
  "fetchData_config endpoint meth body =
     (let headers = [(''Content-Type'', ''application/json'')]
      in \<lparr>req_url = API_BASE_URL @ endpoint, req_method = meth, req_headers = headers,
          req_body = (if js_truthy body then Some body else None)\<rparr>)"

text \<open>Line 35: the error thrown for a response that is not \<^verbatim>\<open>ok\<close>.\<close>

definition http_error :: "nat \<Rightarrow> js_error" where
  "http_error code = Error (''HTTP Error! Status: '' @ string_of_nat code)"

text \<open>
  Lines 32--43. The \<^verbatim>\<open>catch\<close> block logs whatever was thrown in the \<^verbatim>\<open>try\<close> block
  and throws it again.
\<close>

definition fetchData ::
  "(request \<Rightarrow> fetch_outcome) \<Rightarrow> string \<Rightarrow> string \<Rightarrow> jsval \<Rightarrow> world
     \<Rightarrow> (js_error + jsval) \<times> world" where
  "fetchData fetch_fn endpoint meth body w =
     (let config = fetchData_config endpoint meth body;
          w1 = w\<lparr>requests := requests w @ [config]\<rparr>;
          result =
            (case fetch_fn config of
               Rejected err \<Rightarrow> Inl err
             | Resolved resp \<Rightarrow>
                 if \<not> ok resp then Inl (http_error (status resp)) else json resp)
      in case result of
           Inl err \<Rightarrow> (Inl err, w1\<lparr>console := console w1 @ [err]\<rparr>)
         | Inr data \<Rightarrow> (Inr data, w1))"

subsection \<open>The component state (lines 47--54)\<close>

record 'f state =
  ticker :: string
  summary :: jsval
  question :: string
  answer :: jsval
  portfolioFile :: "'f option"
  portfolioAnalysis :: jsval
  loading :: bool
  error :: "string option"

definition initial_state :: "'f state" where
  "initial_state =
     \<lparr>ticker = [], summary = JString [], question = [], answer = JString [],
      portfolioFile = None, portfolioAnalysis = JString [], loading = False, error = None\<rparr>"

definition initial_world :: world where
  "initial_world = \<lparr>requests = [], console = []\<rparr>"

subsection \<open>\<^verbatim>\<open>getSummary\<close> (lines 56--78)\<close>

text \<open>Lines 62--64: the state in which the request is issued.\<close>

definition getSummary_pending :: "'f state \<Rightarrow> 'f state" where
  "getSummary_pending s = s\<lparr>loading := True, error := None, summary := JString []\<rparr>"

text \<open>Lines 68--77: what the settled call of \<^verbatim>\<open>fetchData\<close> does to the state.\<close>

definition getSummary_settle :: "js_error + jsval \<Rightarrow> 'f state \<Rightarrow> 'f state" where
  "getSummary_settle r s =
     (let s' =
        (case r of
           Inl err \<Rightarrow> s\<lparr>error := Some (message_or err ''Failed to fetch summary'')\<rparr>
         | Inr data \<Rightarrow>
             (case read_prop data ''summary'' of
                Inl err \<Rightarrow> s\<lparr>error := Some (message_or err ''Failed to fetch summary'')\<rparr>
              | Inr v \<Rightarrow> s\<lparr>summary := v\<rparr>))
      in s'\<lparr>loading := False\<rparr>)"

text \<open>
  Lines 65--77, from the pending state on. The ticker is the one the callback closed
  over when it was created (\<^verbatim>\<open>useCallback(..., [ticker])\<close>).
\<close>

definition getSummary_call ::
  "'f platform \<Rightarrow> string \<Rightarrow> 'f state \<times> world \<Rightarrow> 'f state \<times> world" where
  "getSummary_call p tk sw =
     (case fetchData (fetch p) (''/summary/'' @ tk) ''GET'' JNull (snd sw) of
        (r, w') \<Rightarrow> (getSummary_settle r (fst sw), w'))"

definition getSummary :: "'f platform \<Rightarrow> 'f state \<times> world \<Rightarrow> 'f state \<times> world" where
  "getSummary p sw =
     (let s = fst sw; w = snd sw in
      if ticker s = []
      then (s\<lparr>error := Some (''Please enter a stock ticker '' @
                                [CHR 0xF0, CHR 0x9F, CHR 0x93, CHR 0x8A])\<rparr>, w)
      else getSummary_call p (ticker s) (getSummary_pending s, w))"

subsection \<open>\<^verbatim>\<open>askQuestion\<close> (lines 80--102)\<close>

definition askQuestion_pending :: "'f state \<Rightarrow> 'f state" where
  "askQuestion_pending s = s\<lparr>loading := True, error := None, answer := JString []\<rparr>"

definition askQuestion_settle :: "js_error + jsval \<Rightarrow> 'f state \<Rightarrow> 'f state" where
  "askQuestion_settle r s =
     (let s' =
        (case r of
           Inl err \<Rightarrow> s\<lparr>error := Some (message_or err ''Failed to get answer'')\<rparr>
         | Inr data \<Rightarrow>
             (case read_prop data ''answer'' of
                Inl err \<Rightarrow> s\<lparr>error := Some (message_or err ''Failed to get answer'')\<rparr>
              | Inr v \<Rightarrow> s\<lparr>answer := v\<rparr>))
      in s'\<lparr>loading := False\<rparr>)"

definition askQuestion_call ::
  "'f platform \<Rightarrow> string \<Rightarrow> 'f state \<times> world \<Rightarrow> 'f state \<times> world" where
  "askQuestion_call p q sw =
     (case fetchData (fetch p) ''/question'' ''POST''
             (JObject [(''question'', JString q)]) (snd sw) of
        (r, w') \<Rightarrow> (askQuestion_settle r (fst sw), w'))"

definition askQuestion :: "'f platform \<Rightarrow> 'f state \<times> world \<Rightarrow> 'f state \<times> world" where
  "askQuestion p sw =
     (let s = fst sw; w = snd sw in
      if question s = []
      then (s\<lparr>error := Some ''Please enter a question''\<rparr>, w)
      else askQuestion_call p (question s) (askQuestion_pending s, w))"

subsection \<open>\<^verbatim>\<open>handlePortfolioUpload\<close> (lines 104--134)\<close>

definition handlePortfolioUpload_pending :: "'f state \<Rightarrow> 'f state" where
  "handlePortfolioUpload_pending s =
     s\<lparr>loading := True, error := None, portfolioAnalysis := JString []\<rparr>"

text \<open>Lines 119--127, after the call of \<^verbatim>\<open>fetchData\<close> in \<^verbatim>\<open>reader.onload\<close> has settled.\<close>

definition handlePortfolioUpload_settle :: "js_error + jsval \<Rightarrow> 'f state \<Rightarrow> 'f state" where
  "handlePortfolioUpload_settle r s =
     (let s' =
        (case r of
           Inl err \<Rightarrow> s\<lparr>error := Some (message_or err ''Failed to analyze portfolio'')\<rparr>
         | Inr data \<Rightarrow>
             (case read_prop data ''analysis'' of
                Inl err \<Rightarrow> s\<lparr>error := Some (message_or err ''Failed to analyze portfolio'')\<rparr>
              | Inr v \<Rightarrow> s\<lparr>portfolioAnalysis := v\<rparr>))
      in s'\<lparr>loading := False\<rparr>)"

text \<open>
  The two listeners: \<^verbatim>\<open>reader.onerror\<close> (lines 129--132) and \<^verbatim>\<open>reader.onload\<close>
  (lines 114--128).
\<close>

definition handlePortfolioUpload_read ::
  "'f platform \<Rightarrow> reader_event \<Rightarrow> 'f state \<times> world \<Rightarrow> 'f state \<times> world" where
  "handlePortfolioUpload_read p ev sw =
     (let s = fst sw; w = snd sw in
      case ev of
        OnError \<Rightarrow> (s\<lparr>error := Some ''Failed to read the file.'', loading := False\<rparr>, w)
      | OnLoad text \<Rightarrow>
          if is_string text
          then
            (case fetchData (fetch p) ''/portfolio/analyze'' ''POST''
                    (JObject [(''csvData'', text)]) w of
               (r, w') \<Rightarrow> (handlePortfolioUpload_settle r s, w'))
          else (s\<lparr>error := Some ''Error reading file'', loading := False\<rparr>, w))"

definition handlePortfolioUpload ::
  "'f platform \<Rightarrow> 'f state \<times> world \<Rightarrow> 'f state \<times> world" where
  "handlePortfolioUpload p sw =
     (let s = fst sw; w = snd sw in
      case portfolioFile s of
        None \<Rightarrow> (s\<lparr>error := Some ''Please upload a portfolio file''\<rparr>, w)
      | Some file \<Rightarrow>
          handlePortfolioUpload_read p (readAsText p file) (handlePortfolioUpload_pending s, w))"

subsection \<open>The three sections\<close>

text \<open>
  Each section of the page has a handler, a required input and a result cell of its own.
  The component has one \<^verbatim>\<open>loading\<close> cell and one \<^verbatim>\<open>error\<close> cell (lines 53--54):
  every section's input and button read the same \<^verbatim>\<open>loading\<close> (lines 167--170,
  193--196, 219--223), and the one alert at the top of the page shows \<^verbatim>\<open>error\<close>
  (lines 149--155). So the loading flag and the error message of a section are those
  two cells, whichever the section.
\<close>

datatype area = Summary | Question | Portfolio

definition submit ::
  "area \<Rightarrow> 'f platform \<Rightarrow> 'f state \<times> world \<Rightarrow> 'f state \<times> world" where
  "submit sec =
     (case sec of
        Summary \<Rightarrow> getSummary
      | Question \<Rightarrow> askQuestion
      | Portfolio \<Rightarrow> handlePortfolioUpload)"

definition resultText :: "area \<Rightarrow> 'f state \<Rightarrow> jsval" where
  "resultText sec s =
     (case sec of
        Summary \<Rightarrow> summary s
      | Question \<Rightarrow> answer s
      | Portfolio \<Rightarrow> portfolioAnalysis s)"

definition isLoading :: "area \<Rightarrow> 'f state \<Rightarrow> bool" where
  "isLoading sec s = loading s"

definition errorMessage :: "area \<Rightarrow> 'f state \<Rightarrow> string option" where
  "errorMessage sec s = error s"

text \<open>The guards of lines 57, 81 and 105: \<^verbatim>\<open>!ticker\<close>, \<^verbatim>\<open>!question\<close>, \<^verbatim>\<open>!portfolioFile\<close>.\<close>

definition input_missing :: "area \<Rightarrow> 'f state \<Rightarrow> bool" where
  "input_missing sec s =
     (case sec of
        Summary \<Rightarrow> ticker s = []
      | Question \<Rightarrow> question s = []
      | Portfolio \<Rightarrow> portfolioFile s = None)"

definition pending :: "area \<Rightarrow> 'f state \<Rightarrow> 'f state" where
  "pending sec =
     (case sec of
        Summary \<Rightarrow> getSummary_pending
      | Question \<Rightarrow> askQuestion_pending
      | Portfolio \<Rightarrow> handlePortfolioUpload_pending)"

text \<open>The property of the payload that each handler reads (lines 68, 92, 119).\<close>

definition result_field :: "area \<Rightarrow> string" where
  "result_field sec =
     (case sec of
        Summary \<Rightarrow> ''summary''
      | Question \<Rightarrow> ''answer''
      | Portfolio \<Rightarrow> ''analysis'')"

text \<open>The property of a parsed body under a name, when the body is an object that has it.\<close>

definition own_property :: "jsval \<Rightarrow> string \<Rightarrow> jsval option" where
  "own_property data name = (case data of JObject ps \<Rightarrow> map_of ps name | _ \<Rightarrow> None)"

text \<open>
  A platform for the concrete instances below: every call of \<^verbatim>\<open>fetch\<close> settles as
  \<open>out\<close>, every read of a file ends in the event \<open>ev\<close>.
\<close>

definition fixed_platform :: "fetch_outcome \<Rightarrow> reader_event \<Rightarrow> 'f platform" where
  "fixed_platform out ev = \<lparr>fetch = (\<lambda>req. out), readAsText = (\<lambda>file. ev)\<rparr>"

section \<open>Properties\<close>

subsection \<open>Auxiliary facts\<close>

lemma string_of_nat_nonempty: "string_of_nat n \<noteq> []"
  by (subst string_of_nat.simps) simp

lemma digit_inj:
  assumes "i < 10" "j < 10" "''0123456789'' ! i = ''0123456789'' ! j"
  shows "i = j"
proof -
  have "distinct ''0123456789''" by simp
  moreover have "i < length ''0123456789''" "j < length ''0123456789''"
    using assms by simp_all
  ultimately show ?thesis
    using assms(3) nth_eq_iff_index_eq by blast
qed

text \<open>Two numbers with the same numeral are the same number.\<close>

lemma string_of_nat_inj: "string_of_nat m = string_of_nat n \<Longrightarrow> m = n"
proof (induction m arbitrary: n rule: string_of_nat.induct)
  case (1 m)
  show ?case
  proof (cases "m < 10")
    case small_m: True
    show ?thesis
    proof (cases "n < 10")
      case True
      with small_m "1.prems" show ?thesis
        by (simp add: string_of_nat.simps [of m] string_of_nat.simps [of n] digit_inj)
    next
      case False
      with small_m "1.prems" string_of_nat_nonempty [of "n div 10"] show ?thesis
        by (simp add: string_of_nat.simps [of m] string_of_nat.simps [of n])
    qed
  next
    case big_m: False
    show ?thesis
    proof (cases "n < 10")
      case True
      with big_m "1.prems" string_of_nat_nonempty [of "m div 10"] show ?thesis
        by (simp add: string_of_nat.simps [of m] string_of_nat.simps [of n])
    next
      case False
      with big_m "1.prems" have eq: "string_of_nat (m div 10) = string_of_nat (n div 10)"
        and d: "''0123456789'' ! (m mod 10) = ''0123456789'' ! (n mod 10)"
        by (simp_all add: string_of_nat.simps [of m] string_of_nat.simps [of n])
      from "1.IH" [OF big_m eq] have "m div 10 = n div 10" .
      moreover from d have "m mod 10 = n mod 10"
        by (intro digit_inj) simp_all
      ultimately show ?thesis
        by (metis div_mult_mod_eq)
    qed
  qed
qed

lemma http_error_inj: "http_error m = http_error n \<Longrightarrow> m = n"
  by (simp add: http_error_def string_of_nat_inj)

lemma string_of_nat_500: "string_of_nat 500 = ''500''"
  by (simp add: string_of_nat.simps)

lemma fetchData_result:
  "fst (fetchData fetch_fn endpoint meth body w) =
     (case fetch_fn (fetchData_config endpoint meth body) of
        Rejected err \<Rightarrow> Inl err
      | Resolved resp \<Rightarrow> if ok resp then json resp else Inl (http_error (status resp)))"
  by (simp add: fetchData_def Let_def split: fetch_outcome.splits sum.splits)

lemma fetchData_requests:
  "requests (snd (fetchData fetch_fn endpoint meth body w)) =
     requests w @ [fetchData_config endpoint meth body]"
  by (simp add: fetchData_def Let_def split: fetch_outcome.splits sum.splits)

lemmas handler_defs =
  submit_def getSummary_def getSummary_call_def getSummary_settle_def getSummary_pending_def
  askQuestion_def askQuestion_call_def askQuestion_settle_def askQuestion_pending_def
  handlePortfolioUpload_def handlePortfolioUpload_read_def handlePortfolioUpload_settle_def
  handlePortfolioUpload_pending_def

lemmas view_defs =
  resultText_def isLoading_def errorMessage_def input_missing_def pending_def result_field_def

lemmas sample_defs =
  fixed_platform_def initial_state_def initial_world_def fetchData_def fetchData_config_def
  API_BASE_URL_def ok_def own_property_def

subsection \<open>Independence of the sections\<close>

text \<open>
  Claim C1, as the code has it. The result cell of a section is its own: running the
  action of one section, whatever its outcome, leaves the result text of every other
  section as it was. The loading flag and the error message are not per section: after
  the action, every other section shows the very flag and message of the section that
  ran, since the component has a single \<^verbatim>\<open>loading\<close> cell and a single
  \<^verbatim>\<open>error\<close> cell.
\<close>

theorem result_cells_are_separate:
  assumes "a \<noteq> b"
  shows "resultText b (fst (submit a p (s, w))) = resultText b s
       \<and> isLoading b (fst (submit a p (s, w))) = isLoading a (fst (submit a p (s, w)))
       \<and> errorMessage b (fst (submit a p (s, w))) = errorMessage a (fst (submit a p (s, w)))"
  using assms
  by (cases a; cases b)
     (auto simp: handler_defs view_defs Let_def split_beta
           split: sum.splits option.splits reader_event.splits)

text \<open>
  An instance: the Question section shows an answer; a Summary request that the backend
  rejects with status 500 leaves the answer in place, and its message shows for the
  Question section too.
\<close>

theorem result_cells_are_separate_witness:
  "Summary \<noteq> Question
   \<and> resultText Question
       (fst (submit Summary
          (fixed_platform (Resolved \<lparr>status = 500, json = Inr JNull\<rparr>) OnError)
          ((initial_state :: string state)
             \<lparr>ticker := ''AAPL'', answer := JString ''A bond is a loan.''\<rparr>, initial_world)))
     = JString ''A bond is a loan.''
   \<and> errorMessage Question
       (fst (submit Summary
          (fixed_platform (Resolved \<lparr>status = 500, json = Inr JNull\<rparr>) OnError)
          ((initial_state :: string state)
             \<lparr>ticker := ''AAPL'', answer := JString ''A bond is a loan.''\<rparr>, initial_world)))
     = Some ''HTTP Error! Status: 500''"
proof -
  let ?p = "fixed_platform (Resolved \<lparr>status = 500, json = Inr JNull\<rparr>) OnError :: string platform"
  let ?s = "(initial_state :: string state)
              \<lparr>ticker := ''AAPL'', answer := JString ''A bond is a loan.''\<rparr>"
  have distinct_sections: "Summary \<noteq> Question" by simp
  have shown: "errorMessage Summary (fst (submit Summary ?p (?s, initial_world)))
                 = Some ''HTTP Error! Status: 500''"
    by (simp add: handler_defs view_defs sample_defs Let_def http_error_def message_or_def
          string_of_nat_500)
  from result_cells_are_separate [OF distinct_sections, of ?p ?s initial_world] shown
  show ?thesis
    by (simp add: resultText_def initial_state_def)
qed

text \<open>
  The claim as the specification words it fails. With the Question section showing the
  message of its guard, a successful Summary request erases that message; and while the
  Summary request is pending, the Question section is loading as well.
\<close>

theorem shared_flag_and_message_counterexample:
  "errorMessage Question
     (fst (submit Summary
        (fixed_platform
           (Resolved \<lparr>status = 200, json = Inr (JObject [(''summary'', JString ''Apple Inc.'')])\<rparr>)
           OnError)
        ((initial_state :: string state)
           \<lparr>ticker := ''AAPL'', error := Some ''Please enter a question''\<rparr>, initial_world)))
     \<noteq> errorMessage Question
         ((initial_state :: string state)
            \<lparr>ticker := ''AAPL'', error := Some ''Please enter a question''\<rparr>)
   \<and> isLoading Question
       (pending Summary
          ((initial_state :: string state)
             \<lparr>ticker := ''AAPL'', error := Some ''Please enter a question''\<rparr>))
     \<noteq> isLoading Question
         ((initial_state :: string state)
            \<lparr>ticker := ''AAPL'', error := Some ''Please enter a question''\<rparr>)"
  by (simp add: handler_defs view_defs sample_defs Let_def)

subsection \<open>The guards\<close>

text \<open>
  Claim C2, as the code has it. When the required input of a section is empty (the
  ticker or the question is the empty string, or no file is selected), submitting issues
  no request, writes nothing to the console, and leaves the loading flag as it was (so
  false when it was false).
\<close>

theorem empty_input_no_call:
  assumes "input_missing sec s"
  shows "snd (submit sec p (s, w)) = w
       \<and> isLoading sec (fst (submit sec p (s, w))) = isLoading sec s"
  using assms
  by (cases sec) (auto simp: handler_defs view_defs Let_def)

theorem empty_input_no_call_witness:
  "input_missing Portfolio (initial_state :: string state)
   \<and> snd (submit Portfolio
        (fixed_platform (Rejected (Error ''Failed to fetch'')) (OnLoad (JString ''a,b'')))
        (initial_state :: string state, initial_world)) = initial_world
   \<and> \<not> isLoading Portfolio
        (fst (submit Portfolio
           (fixed_platform (Rejected (Error ''Failed to fetch'')) (OnLoad (JString ''a,b'')))
           (initial_state :: string state, initial_world)))"
proof -
  have missing: "input_missing Portfolio (initial_state :: string state)"
    by (simp add: input_missing_def initial_state_def)
  from empty_input_no_call [OF missing] missing show ?thesis
    by (simp add: isLoading_def initial_state_def)
qed

text \<open>
  A ticker of three spaces is not empty for the guard \<^verbatim>\<open>!ticker\<close>: the request goes out.
\<close>

theorem blank_ticker_counterexample:
  "requests
     (snd (submit Summary
        (fixed_platform (Resolved \<lparr>status = 404, json = Inr JNull\<rparr>) OnError)
        ((initial_state :: string state)\<lparr>ticker := ''   ''\<rparr>, initial_world)))
   = [\<lparr>req_url = ''/intellivest-back-end.py/summary/   '', req_method = ''GET'',
       req_headers = [(''Content-Type'', ''application/json'')], req_body = None\<rparr>]"
  by (simp add: handler_defs sample_defs Let_def split: sum.splits)

text \<open>
  Claim C3, as the code has it. Submitting the Summary action with the empty ticker sets
  the error message to the text of line 59: \<^verbatim>\<open>Please enter a stock ticker\<close>, a space, and
  the four bytes F0 9F 93 8A (the bar chart sign U+1F4CA in UTF-8).
\<close>

theorem empty_ticker_message:
  assumes "ticker s = []"
  shows "errorMessage Summary (fst (submit Summary p (s, w))) =
           Some (''Please enter a stock ticker '' @ [CHR 0xF0, CHR 0x9F, CHR 0x93, CHR 0x8A])"
  using assms by (simp add: handler_defs view_defs Let_def)

theorem empty_ticker_message_witness:
  "ticker (initial_state :: string state) = []
   \<and> errorMessage Summary
       (fst (submit Summary (fixed_platform (Rejected (Error ''Failed to fetch'')) OnError)
          (initial_state :: string state, initial_world)))
     = Some (''Please enter a stock ticker '' @ [CHR 0xF0, CHR 0x9F, CHR 0x93, CHR 0x8A])"
proof -
  have empty: "ticker (initial_state :: string state) = []"
    by (simp add: initial_state_def)
  from empty_ticker_message [OF empty] empty show ?thesis
    by simp
qed

text \<open>
  The message is not the bare sentence, and a blank ticker gets no guard message at all.
\<close>

theorem ticker_message_counterexample:
  "errorMessage Summary
     (fst (submit Summary (fixed_platform (Rejected (Error ''Failed to fetch'')) OnError)
        (initial_state :: string state, initial_world)))
     \<noteq> Some ''Please enter a stock ticker''
   \<and> errorMessage Summary
       (fst (submit Summary
          (fixed_platform
             (Resolved \<lparr>status = 200, json = Inr (JObject [(''summary'', JString ''n/a'')])\<rparr>)
             OnError)
          ((initial_state :: string state)\<lparr>ticker := ''   ''\<rparr>, initial_world)))
     \<noteq> Some ''Please enter a stock ticker''"
  by (simp add: handler_defs view_defs sample_defs Let_def)

subsection \<open>The gateway\<close>

text \<open>
  Claim C4. For every endpoint, method and body, \<^verbatim>\<open>fetchData\<close> hands one request to
  \<^verbatim>\<open>fetch\<close> and
  \<^item> when the response has a status outside 200..299, throws the error of that status,
    and the errors of two different statuses differ (the error carries the code);
  \<^item> when the transport rejects, throws the transport's error;
  \<^item> otherwise returns the outcome of \<^verbatim>\<open>response.json()\<close>: the parsed body, or the
    parser's error when the body is not JSON.
\<close>

theorem fetchData_outcomes:
  "(\<forall>resp. fetch_fn (fetchData_config endpoint meth body) = Resolved resp \<and> \<not> ok resp \<longrightarrow>
      fst (fetchData fetch_fn endpoint meth body w) = Inl (http_error (status resp)))
   \<and> (\<forall>m n. http_error m = http_error n \<longrightarrow> m = n)
   \<and> (\<forall>err. fetch_fn (fetchData_config endpoint meth body) = Rejected err \<longrightarrow>
      fst (fetchData fetch_fn endpoint meth body w) = Inl err)
   \<and> (\<forall>resp. fetch_fn (fetchData_config endpoint meth body) = Resolved resp \<and> ok resp \<longrightarrow>
      fst (fetchData fetch_fn endpoint meth body w) = json resp)
   \<and> requests (snd (fetchData fetch_fn endpoint meth body w)) =
       requests w @ [fetchData_config endpoint meth body]"
  using http_error_inj by (auto simp: fetchData_result fetchData_requests)

theorem fetchData_outcomes_witness:
  "fst (fetchData (\<lambda>req. Resolved \<lparr>status = 500, json = Inr JNull\<rparr>) ''/question'' ''POST''
          (JObject [(''question'', JString ''What is a bond?'')]) initial_world)
     = Inl (Error ''HTTP Error! Status: 500'')
   \<and> fst (fetchData (\<lambda>req. Rejected (Error ''Failed to fetch'')) ''/summary/AAPL'' ''GET''
          JNull initial_world)
     = Inl (Error ''Failed to fetch'')
   \<and> fst (fetchData
          (\<lambda>req. Resolved \<lparr>status = 200, json = Inr (JObject [(''summary'', JString ''Apple Inc.'')])\<rparr>)
          ''/summary/AAPL'' ''GET'' JNull initial_world)
     = Inr (JObject [(''summary'', JString ''Apple Inc.'')])"
  using
    fetchData_outcomes [of "\<lambda>req. Resolved \<lparr>status = 500, json = Inr JNull\<rparr>" "''/question''"
      "''POST''" "JObject [(''question'', JString ''What is a bond?'')]" initial_world]
    fetchData_outcomes [of "\<lambda>req. Rejected (Error ''Failed to fetch'')" "''/summary/AAPL''"
      "''GET''" JNull initial_world]
    fetchData_outcomes
      [of "\<lambda>req. Resolved \<lparr>status = 200, json = Inr (JObject [(''summary'', JString ''Apple Inc.'')])\<rparr>"
        "''/summary/AAPL''" "''GET''" JNull initial_world]
  by (simp add: ok_def http_error_def string_of_nat_500)

subsection \<open>Outcomes of a submission\<close>

text \<open>
  Claim C5. For each of the three actions: when the input is present and the response to
  the request of the action (\<^verbatim>\<open>GET /summary/{ticker}\<close>, \<^verbatim>\<open>POST /question\<close> with
  the question, \<^verbatim>\<open>POST /portfolio/analyze\<close> with the text read from the file) has a
  status in 200..299 and a parsed body that is an object with the property the action
  reads (\<^verbatim>\<open>summary\<close>, \<^verbatim>\<open>answer\<close>, \<^verbatim>\<open>analysis\<close>), then the result text of the
  section is exactly the value of that property and the error message is absent.
\<close>

theorem success_populates_result:
  "(ticker s \<noteq> []
      \<and> fetch p (fetchData_config (''/summary/'' @ ticker s) ''GET'' JNull) = Resolved resp
      \<and> ok resp \<and> json resp = Inr data \<and> own_property data ''summary'' = Some v \<longrightarrow>
      resultText Summary (fst (submit Summary p (s, w))) = v
      \<and> errorMessage Summary (fst (submit Summary p (s, w))) = None)
   \<and> (question s \<noteq> []
      \<and> fetch p (fetchData_config ''/question'' ''POST''
                   (JObject [(''question'', JString (question s))])) = Resolved resp
      \<and> ok resp \<and> json resp = Inr data \<and> own_property data ''answer'' = Some v \<longrightarrow>
      resultText Question (fst (submit Question p (s, w))) = v
      \<and> errorMessage Question (fst (submit Question p (s, w))) = None)
   \<and> (portfolioFile s = Some file \<and> readAsText p file = OnLoad (JString t)
      \<and> fetch p (fetchData_config ''/portfolio/analyze'' ''POST''
                   (JObject [(''csvData'', JString t)])) = Resolved resp
      \<and> ok resp \<and> json resp = Inr data \<and> own_property data ''analysis'' = Some v \<longrightarrow>
      resultText Portfolio (fst (submit Portfolio p (s, w))) = v
      \<and> errorMessage Portfolio (fst (submit Portfolio p (s, w))) = None)"
  by (cases data)
     (auto simp: handler_defs view_defs Let_def split_beta own_property_def fetchData_result)

text \<open>
  The scenarios of the specification, each entered with a stale error message: ticker
  AAPL with the summary \<^verbatim>\<open>Apple Inc. overview...\<close>, a question with an answer, and a
  portfolio file read as text with the analysis \<^verbatim>\<open>Diversification score: 7/10\<close>.
\<close>

theorem success_populates_result_witness:
  "resultText Summary
     (fst (submit Summary
        (fixed_platform
           (Resolved \<lparr>status = 200,
                      json = Inr (JObject [(''summary'', JString ''Apple Inc. overview...'')])\<rparr>)
           OnError)
        ((initial_state :: string state)\<lparr>ticker := ''AAPL'', error := Some ''stale''\<rparr>,
         initial_world)))
     = JString ''Apple Inc. overview...''
   \<and> errorMessage Summary
     (fst (submit Summary
        (fixed_platform
           (Resolved \<lparr>status = 200,
                      json = Inr (JObject [(''summary'', JString ''Apple Inc. overview...'')])\<rparr>)
           OnError)
        ((initial_state :: string state)\<lparr>ticker := ''AAPL'', error := Some ''stale''\<rparr>,
         initial_world)))
     = None
   \<and> resultText Question
     (fst (submit Question
        (fixed_platform
           (Resolved \<lparr>status = 201,
                      json = Inr (JObject [(''answer'', JString ''A bond is a loan.'')])\<rparr>)
           OnError)
        ((initial_state :: string state)
           \<lparr>question := ''What is a bond?'', error := Some ''stale''\<rparr>,
         initial_world)))
     = JString ''A bond is a loan.''
   \<and> errorMessage Question
     (fst (submit Question
        (fixed_platform
           (Resolved \<lparr>status = 201,
                      json = Inr (JObject [(''answer'', JString ''A bond is a loan.'')])\<rparr>)
           OnError)
        ((initial_state :: string state)
           \<lparr>question := ''What is a bond?'', error := Some ''stale''\<rparr>,
         initial_world)))
     = None
   \<and> resultText Portfolio
     (fst (submit Portfolio
        (fixed_platform
           (Resolved \<lparr>status = 200,
                      json = Inr (JObject [(''analysis'', JString ''Diversification score: 7/10'')])\<rparr>)
           (OnLoad (JString ''AAPL,10'')))
        ((initial_state :: string state)
           \<lparr>portfolioFile := Some ''portfolio.csv'', error := Some ''stale''\<rparr>,
         initial_world)))
     = JString ''Diversification score: 7/10''
   \<and> errorMessage Portfolio
     (fst (submit Portfolio
        (fixed_platform
           (Resolved \<lparr>status = 200,
                      json = Inr (JObject [(''analysis'', JString ''Diversification score: 7/10'')])\<rparr>)
           (OnLoad (JString ''AAPL,10'')))
        ((initial_state :: string state)
           \<lparr>portfolioFile := Some ''portfolio.csv'', error := Some ''stale''\<rparr>,
         initial_world)))
     = None"
proof -
  let ?d1 = "JObject [(''summary'', JString ''Apple Inc. overview...'')]"
  let ?r1 = "\<lparr>status = 200, json = Inr ?d1\<rparr>"
  let ?p1 = "fixed_platform (Resolved ?r1) OnError :: string platform"
  let ?s1 = "(initial_state :: string state)\<lparr>ticker := ''AAPL'', error := Some ''stale''\<rparr>"
  let ?d2 = "JObject [(''answer'', JString ''A bond is a loan.'')]"
  let ?r2 = "\<lparr>status = 201, json = Inr ?d2\<rparr>"
  let ?p2 = "fixed_platform (Resolved ?r2) OnError :: string platform"
  let ?s2 = "(initial_state :: string state)
               \<lparr>question := ''What is a bond?'', error := Some ''stale''\<rparr>"
  let ?d3 = "JObject [(''analysis'', JString ''Diversification score: 7/10'')]"
  let ?r3 = "\<lparr>status = 200, json = Inr ?d3\<rparr>"
  let ?p3 = "fixed_platform (Resolved ?r3) (OnLoad (JString ''AAPL,10'')) :: string platform"
  let ?s3 = "(initial_state :: string state)
               \<lparr>portfolioFile := Some ''portfolio.csv'', error := Some ''stale''\<rparr>"
  have summary_case:
    "resultText Summary (fst (submit Summary ?p1 (?s1, initial_world)))
       = JString ''Apple Inc. overview...''
     \<and> errorMessage Summary (fst (submit Summary ?p1 (?s1, initial_world))) = None"
    using success_populates_result
      [of ?s1 ?p1 ?r1 ?d1 "JString ''Apple Inc. overview...''" initial_world]
    by (simp add: fixed_platform_def ok_def own_property_def)
  have question_case:
    "resultText Question (fst (submit Question ?p2 (?s2, initial_world)))
       = JString ''A bond is a loan.''
     \<and> errorMessage Question (fst (submit Question ?p2 (?s2, initial_world))) = None"
    using success_populates_result
      [of ?s2 ?p2 ?r2 ?d2 "JString ''A bond is a loan.''" initial_world]
    by (simp add: fixed_platform_def ok_def own_property_def)
  have portfolio_case:
    "resultText Portfolio (fst (submit Portfolio ?p3 (?s3, initial_world)))
       = JString ''Diversification score: 7/10''
     \<and> errorMessage Portfolio (fst (submit Portfolio ?p3 (?s3, initial_world))) = None"
    using success_populates_result
      [of ?s3 ?p3 ?r3 ?d3 "JString ''Diversification score: 7/10''" initial_world
          "''portfolio.csv''" "''AAPL,10''"]
    by (simp add: fixed_platform_def ok_def own_property_def)
  from summary_case question_case portfolio_case show ?thesis
    by blast
qed

text \<open>
  Claim C6. For each of the three actions and every platform (whatever the outcome of the
  request or of the file read), a submission whose input is present ends with the loading
  flag false.
\<close>

theorem loading_cleared:
  assumes "\<not> input_missing sec s"
  shows "\<not> isLoading sec (fst (submit sec p (s, w)))"
  using assms
  by (cases sec)
     (auto simp: handler_defs view_defs Let_def split_beta
           split: sum.splits option.splits reader_event.splits)

text \<open>The scenario of the specification: a question answered with status 500.\<close>

theorem loading_cleared_witness:
  "\<not> input_missing Question ((initial_state :: string state)\<lparr>question := ''What is a bond?''\<rparr>)
   \<and> \<not> isLoading Question
        (fst (submit Question
           (fixed_platform (Resolved \<lparr>status = 500, json = Inr JNull\<rparr>) OnError)
           ((initial_state :: string state)\<lparr>question := ''What is a bond?''\<rparr>, initial_world)))"
proof -
  have present:
    "\<not> input_missing Question ((initial_state :: string state)\<lparr>question := ''What is a bond?''\<rparr>)"
    by (simp add: input_missing_def)
  from loading_cleared [OF present] present show ?thesis
    by simp
qed

text \<open>
  Claim C7. A submission whose input is present first moves to the pending state, in
  which the section's result text is the empty string and the error message is absent,
  and the rest of the handler (the request, or for the portfolio the file read and then
  the request) runs from that state. When it has settled, the section does not have both
  a result text other than the empty string and an error message.
\<close>

theorem cleared_then_at_most_one:
  assumes "\<not> input_missing sec s"
  shows "resultText sec (pending sec s) = JString []
       \<and> errorMessage sec (pending sec s) = None
       \<and> (sec = Summary \<longrightarrow>
            submit sec p (s, w) = getSummary_call p (ticker s) (pending sec s, w))
       \<and> (sec = Question \<longrightarrow>
            submit sec p (s, w) = askQuestion_call p (question s) (pending sec s, w))
       \<and> (\<forall>file. sec = Portfolio \<and> portfolioFile s = Some file \<longrightarrow>
            submit sec p (s, w) =
              handlePortfolioUpload_read p (readAsText p file) (pending sec s, w))
       \<and> \<not> (resultText sec (fst (submit sec p (s, w))) \<noteq> JString []
            \<and> errorMessage sec (fst (submit sec p (s, w))) \<noteq> None)"
  using assms
  by (cases sec)
     (auto simp: handler_defs view_defs Let_def split_beta
           split: sum.splits option.splits reader_event.splits)

text \<open>
  An instance: the Summary section shows an old summary and an old message; the new
  request is rejected by the transport.
\<close>

theorem cleared_then_at_most_one_witness:
  "resultText Summary
     (pending Summary
        ((initial_state :: string state)
           \<lparr>ticker := ''AAPL'', summary := JString ''old'', error := Some ''stale''\<rparr>))
     = JString []
   \<and> errorMessage Summary
     (pending Summary
        ((initial_state :: string state)
           \<lparr>ticker := ''AAPL'', summary := JString ''old'', error := Some ''stale''\<rparr>))
     = None
   \<and> resultText Summary
     (fst (submit Summary (fixed_platform (Rejected (Error ''Failed to fetch'')) OnError)
        ((initial_state :: string state)
           \<lparr>ticker := ''AAPL'', summary := JString ''old'', error := Some ''stale''\<rparr>,
         initial_world)))
     = JString []
   \<and> errorMessage Summary
     (fst (submit Summary (fixed_platform (Rejected (Error ''Failed to fetch'')) OnError)
        ((initial_state :: string state)
           \<lparr>ticker := ''AAPL'', summary := JString ''old'', error := Some ''stale''\<rparr>,
         initial_world)))
     = Some ''Failed to fetch''"
proof -
  let ?p = "fixed_platform (Rejected (Error ''Failed to fetch'')) OnError :: string platform"
  let ?s = "(initial_state :: string state)
              \<lparr>ticker := ''AAPL'', summary := JString ''old'', error := Some ''stale''\<rparr>"
  have present: "\<not> input_missing Summary ?s"
    by (simp add: input_missing_def)
  have shown: "errorMessage Summary (fst (submit Summary ?p (?s, initial_world)))
                 = Some ''Failed to fetch''"
    by (simp add: handler_defs view_defs sample_defs Let_def message_or_def)
  note settled = cleared_then_at_most_one [OF present, of ?p initial_world]
  from settled have cleared:
    "resultText Summary (pending Summary ?s) = JString []
     \<and> errorMessage Summary (pending Summary ?s) = None"
    by blast
  from settled have
    "\<not> (resultText Summary (fst (submit Summary ?p (?s, initial_world))) \<noteq> JString []
        \<and> errorMessage Summary (fst (submit Summary ?p (?s, initial_world))) \<noteq> None)"
    by blast
  with shown have "resultText Summary (fst (submit Summary ?p (?s, initial_world))) = JString []"
    by simp
  with cleared shown show ?thesis
    by blast
qed

text \<open>
  Claim C8, as the code has it. For the portfolio action with a file selected:
  \<^item> when the read ends in the reader's error event, the error message is
    \<^verbatim>\<open>Failed to read the file.\<close>, the loading flag ends false, and no request is issued
    (nothing outside the component changes);
  \<^item> when the read ends in the load event with a string, the handler issues
    \<^verbatim>\<open>POST /portfolio/analyze\<close> with that string as \<^verbatim>\<open>csvData\<close>, whatever the
    string is, and the loading flag ends false. The handler looks at the type of the
    result only (line 117), never at the content.
\<close>

theorem file_read_failure:
  assumes "portfolioFile s = Some file"
  shows "(readAsText p file = OnError \<longrightarrow>
            errorMessage Portfolio (fst (submit Portfolio p (s, w)))
              = Some ''Failed to read the file.''
          \<and> \<not> isLoading Portfolio (fst (submit Portfolio p (s, w)))
          \<and> snd (submit Portfolio p (s, w)) = w)
       \<and> (\<forall>t. readAsText p file = OnLoad (JString t) \<longrightarrow>
            requests (snd (submit Portfolio p (s, w)))
              = requests w @ [fetchData_config ''/portfolio/analyze'' ''POST''
                                (JObject [(''csvData'', JString t)])]
          \<and> \<not> isLoading Portfolio (fst (submit Portfolio p (s, w))))"
  using assms
  by (auto simp: handler_defs view_defs Let_def split_beta fetchData_requests
           split: sum.splits)

text \<open>
  Two instances: a read that ends in the error event, and a read that delivers the text
  \<^verbatim>\<open>AAPL,10\<close>.
\<close>

theorem file_read_failure_witness:
  "errorMessage Portfolio
     (fst (submit Portfolio
        (fixed_platform (Resolved \<lparr>status = 200, json = Inr JNull\<rparr>) OnError)
        ((initial_state :: string state)\<lparr>portfolioFile := Some ''portfolio.csv''\<rparr>,
         initial_world)))
     = Some ''Failed to read the file.''
   \<and> \<not> isLoading Portfolio
     (fst (submit Portfolio
        (fixed_platform (Resolved \<lparr>status = 200, json = Inr JNull\<rparr>) OnError)
        ((initial_state :: string state)\<lparr>portfolioFile := Some ''portfolio.csv''\<rparr>,
         initial_world)))
   \<and> snd (submit Portfolio
        (fixed_platform (Resolved \<lparr>status = 200, json = Inr JNull\<rparr>) OnError)
        ((initial_state :: string state)\<lparr>portfolioFile := Some ''portfolio.csv''\<rparr>,
         initial_world))
     = initial_world
   \<and> requests
     (snd (submit Portfolio
        (fixed_platform (Resolved \<lparr>status = 200, json = Inr JNull\<rparr>)
           (OnLoad (JString ''AAPL,10'')))
        ((initial_state :: string state)\<lparr>portfolioFile := Some ''portfolio.csv''\<rparr>,
         initial_world)))
     = [\<lparr>req_url = ''/intellivest-back-end.py/portfolio/analyze'', req_method = ''POST'',
         req_headers = [(''Content-Type'', ''application/json'')],
         req_body = Some (JObject [(''csvData'', JString ''AAPL,10'')])\<rparr>]"
proof -
  let ?resp = "Resolved \<lparr>status = 200, json = Inr JNull\<rparr>"
  let ?s = "(initial_state :: string state)\<lparr>portfolioFile := Some ''portfolio.csv''\<rparr>"
  have selected: "portfolioFile ?s = Some ''portfolio.csv''"
    by simp
  have e1: "readAsText (fixed_platform ?resp OnError :: string platform) ''portfolio.csv''
              = OnError"
    by (simp add: fixed_platform_def)
  have e2: "readAsText (fixed_platform ?resp (OnLoad (JString ''AAPL,10'')) :: string platform)
              ''portfolio.csv'' = OnLoad (JString ''AAPL,10'')"
    by (simp add: fixed_platform_def)
  from file_read_failure [OF selected, of "fixed_platform ?resp OnError" initial_world]
       file_read_failure
         [OF selected, of "fixed_platform ?resp (OnLoad (JString ''AAPL,10''))" initial_world]
       e1 e2
  show ?thesis
    by (simp add: initial_world_def fetchData_config_def API_BASE_URL_def)
qed

text \<open>
  A file of the two bytes FF 41 is not text. \<^verbatim>\<open>readAsText\<close> does not fail on it: it
  replaces the byte that cannot be decoded and fires the load event with the string
  U+FFFD \<^verbatim>\<open>A\<close> (in UTF-8 the bytes EF BF BD 41). The handler then sends the string to the
  backend, and with a successful answer shows no error message.
\<close>

theorem non_text_file_counterexample:
  "errorMessage Portfolio
     (fst (submit Portfolio
        (fixed_platform
           (Resolved \<lparr>status = 200, json = Inr (JObject [(''analysis'', JString ''n/a'')])\<rparr>)
           (OnLoad (JString [CHR 0xEF, CHR 0xBF, CHR 0xBD, CHR 0x41])))
        ((initial_state :: string state)\<lparr>portfolioFile := Some ''portfolio.csv''\<rparr>,
         initial_world)))
     = None
   \<and> requests
     (snd (submit Portfolio
        (fixed_platform
           (Resolved \<lparr>status = 200, json = Inr (JObject [(''analysis'', JString ''n/a'')])\<rparr>)
           (OnLoad (JString [CHR 0xEF, CHR 0xBF, CHR 0xBD, CHR 0x41])))
        ((initial_state :: string state)\<lparr>portfolioFile := Some ''portfolio.csv''\<rparr>,
         initial_world)))
     = [\<lparr>req_url = ''/intellivest-back-end.py/portfolio/analyze'', req_method = ''POST'',
         req_headers = [(''Content-Type'', ''application/json'')],
         req_body = Some (JObject [(''csvData'',
                       JString [CHR 0xEF, CHR 0xBF, CHR 0xBD, CHR 0x41])])\<rparr>]"
  by (simp add: handler_defs view_defs sample_defs Let_def)

subsection \<open>Repetition\<close>

text \<open>
  Claim C9. On a fixed platform (the backend answers a request the same way each time),
  running an action twice in succession gives the section the result text that running it
  once gives: the second run replaces the result of the first. This holds for every input
  and every answer of the backend, the successful ones among them.
\<close>

theorem repeat_same_result:
  "resultText sec (fst (submit sec p (submit sec p (s, w)))) =
   resultText sec (fst (submit sec p (s, w)))"
  by (cases sec)
     (auto simp: handler_defs view_defs Let_def split_beta fetchData_result
           split: sum.splits option.splits reader_event.splits fetch_outcome.splits)

theorem repeat_same_result_witness:
  "resultText Summary
     (fst (submit Summary
        (fixed_platform
           (Resolved \<lparr>status = 200, json = Inr (JObject [(''summary'', JString ''Apple Inc.'')])\<rparr>)
           OnError)
        (submit Summary
           (fixed_platform
              (Resolved \<lparr>status = 200, json = Inr (JObject [(''summary'', JString ''Apple Inc.'')])\<rparr>)
              OnError)
           ((initial_state :: string state)\<lparr>ticker := ''AAPL''\<rparr>, initial_world))))
     = JString ''Apple Inc.''"
proof -
  let ?p = "fixed_platform
              (Resolved \<lparr>status = 200, json = Inr (JObject [(''summary'', JString ''Apple Inc.'')])\<rparr>)
              OnError :: string platform"
  let ?s = "(initial_state :: string state)\<lparr>ticker := ''AAPL''\<rparr>"
  have once: "resultText Summary (fst (submit Summary ?p (?s, initial_world)))
                = JString ''Apple Inc.''"
    by (simp add: handler_defs view_defs sample_defs Let_def)
  from repeat_same_result [of Summary ?p ?s initial_world] once show ?thesis
    by simp
qed

subsection \<open>A body without the expected property\<close>




end
